theory Spec2Isabelle
  imports Main "HOL-Library.Word"
begin

section \<open>Values of the tracing SDK that the package handles\<close>

text \<open>
  The package otelutils is glue over the OpenTelemetry Go SDK. The SDK's objects are
  opaque to it, so each is modelled by the way it was obtained: an option by the name
  of the SDK function that builds it and its arguments, an exporter or a resource by
  the constructor call and the option list it was given. Whether an SDK call fails is
  not decided by the package; it is read from a record of outcomes (\<open>sdk\<close>, below).
\<close>

text \<open>A Go \<open>error\<close> value, identified by its message.\<close>

datatype error = Error string

text \<open>
  A Go call either returns or panics (a nil dereference is a run-time panic); functions
  of the package that can panic return \<open>'a go\<close>.
\<close>

datatype 'a go = Panic | Return 'a

text \<open>\<open>time.Duration\<close> is an \<open>int64\<close> count of nanoseconds.\<close>

type_synonym Duration = "64 word"

text \<open>\<open>context.Context\<close>: the contexts the package creates itself, and a caller's.\<close>

datatype Context = context_Background | context_WithTimeout Context Duration | Ctx nat

text \<open>
  \<open>io.Writer\<close>: \<open>os.Stdout\<close>, a file opened by name, or a writer of the caller's.
\<close>

datatype io_Writer = os_Stdout | os_File string | user_Writer nat

text \<open>\<open>attribute.KeyValue\<close>, \<open>resource.Detector\<close>, and the gRPC handles.\<close>

type_synonym KeyValue = "string \<times> string"

datatype Detector = Detector nat

datatype DialOption = DialOption nat

datatype ClientConn = ClientConn nat

datatype TransportCredentials = TransportCredentials nat

subsection \<open>Options of \<open>stdouttrace\<close>\<close>

datatype stdouttrace_Option = WithPrettyPrint | WithoutTimestamps | WithWriter io_Writer

subsection \<open>Options of \<open>otlptracegrpc\<close>\<close>

text \<open>\<open>otlptracegrpc.RetryConfig\<close> (an alias of the SDK's \<open>retry.Config\<close>).\<close>

record RetryConfig =
  Enabled :: bool
  InitialInterval :: Duration
  MaxInterval :: Duration
  MaxElapsedTime :: Duration

datatype otlptracegrpc_Option =
    WithCompressor string
  | WithDialOption "DialOption list"
  | WithEndpoint string
  | WithGRPCConn ClientConn
  | WithHeaders "(string \<times> string) list"
  | WithInsecure
  | WithReconnectionPeriod Duration
  | WithRetry RetryConfig
  | WithServiceConfig string
  | WithTLSCredentials TransportCredentials
  | WithTimeout Duration

subsection \<open>Options of \<open>resource\<close>\<close>

datatype resource_Option =
    WithSchemaURL string
  | WithTelemetrySDK
  | WithAttributes "KeyValue list"
  | WithContainer
  | WithContainerID
  | WithDetectors "Detector list"
  | WithFromEnv
  | WithHost
  | WithOS
  | WithOSDescription
  | WithOSType
  | WithProcess
  | WithProcessCommandArgs
  | WithProcessExecutableName
  | WithProcessExecutablePath
  | WithProcessOwner
  | WithProcessPID
  | WithProcessRuntimeDescription
  | WithProcessRuntimeName
  | WithProcessRuntimeVersion

text \<open>
  \<open>semconv.SchemaURL\<close> of the imported package \<open>semconv/v1.12.0\<close>, and the two
  attribute keys the legacy resource uses.
\<close>

definition semconv_SchemaURL :: string where
  "semconv_SchemaURL = ''https://opentelemetry.io/schemas/1.12.0''"

definition semconv_ServiceNameKey :: string where
  "semconv_ServiceNameKey = ''service.name''"

definition semconv_ServiceVersionKey :: string where
  "semconv_ServiceVersionKey = ''service.version''"

subsection \<open>Resources, exporters, providers, propagators\<close>

datatype Resource =
    resource_Default
  | resource_New Context "resource_Option list"
  | resource_NewWithAttributes string "KeyValue list"
  | resource_Merge Resource Resource

datatype SpanExporter =
    stdouttrace_New "stdouttrace_Option list"
  | otlptracegrpc_New Context "otlptracegrpc_Option list"
  | otlptrace_New Context "otlptracegrpc_Option list"

text \<open>
  \<open>sdkTrace.NewTracerProvider(WithBatcher(exp), WithResource(resource))\<close>.
\<close>

datatype TracerProvider = NewTracerProvider SpanExporter Resource

datatype TextMapPropagator =
    TraceContext
  | Baggage
  | NewCompositeTextMapPropagator "TextMapPropagator list"

text \<open>
  The outcomes of the calls the package delegates: for each fallible SDK or OS call,
  the error it returns on the given arguments (\<open>None\<close> is Go's \<open>nil\<close> error), and
  the configuration values \<open>viper.GetString\<close> reads.
\<close>

record sdk =
  resource_New_err :: "Context \<Rightarrow> resource_Option list \<Rightarrow> error option"
  resource_Merge_err :: "Resource \<Rightarrow> Resource \<Rightarrow> error option"
  stdouttrace_New_err :: "stdouttrace_Option list \<Rightarrow> error option"
  otlptracegrpc_New_err :: "Context \<Rightarrow> otlptracegrpc_Option list \<Rightarrow> error option"
  otlptrace_New_err :: "Context \<Rightarrow> otlptracegrpc_Option list \<Rightarrow> error option"
  os_Create_err :: "string \<Rightarrow> error option"
  viper_GetString :: "string \<Rightarrow> string"
  ForceFlush_err :: "Context \<Rightarrow> TracerProvider \<Rightarrow> error option"
  Shutdown_err :: "Context \<Rightarrow> TracerProvider \<Rightarrow> error option"

text \<open>A Go call \<open>v, err := f(args)\<close> of a constructor: the error, or the value built.\<close>

definition call :: "error option \<Rightarrow> 'a \<Rightarrow> error + 'a" where
  "call err v = (case err of Some e \<Rightarrow> Inl e | None \<Rightarrow> Inr v)"

section \<open>Exporter configuration\<close>

subsection \<open>\<open>ConsoleSpanExporterConfig\<close>\<close>

text \<open>The field \<open>Writer *io.Writer\<close> is a pointer: \<open>None\<close> is \<open>nil\<close>.\<close>

record ConsoleSpanExporterConfig =
  PrettyPrint :: bool
  Timestamps :: bool
  Writer :: "io_Writer option"

definition ConsoleSpanExporterConfig_getOptions ::
  "ConsoleSpanExporterConfig \<Rightarrow> stdouttrace_Option list" where
  "ConsoleSpanExporterConfig_getOptions c =
     (let options = [];
          options = (if PrettyPrint c then options @ [WithPrettyPrint] else options);
          options = (if \<not> Timestamps c then options @ [WithoutTimestamps] else options);
          options = (case Writer c of
                       None \<Rightarrow> options @ [WithWriter os_Stdout]
                     | Some w \<Rightarrow> options @ [WithWriter w])
      in options)"

definition ConsoleSpanExporterConfig_newSpanExporter ::
  "sdk \<Rightarrow> ConsoleSpanExporterConfig \<Rightarrow> Context \<Rightarrow> error + SpanExporter" where
  "ConsoleSpanExporterConfig_newSpanExporter k c ctx =
     (let opts = ConsoleSpanExporterConfig_getOptions c
      in call (stdouttrace_New_err k opts) (stdouttrace_New opts))"

subsection \<open>\<open>OtlpGrpcSpanExporterConfig\<close> and the retry options\<close>

text \<open>
  A \<open>RetryOption\<close> is a Go func taking a pointer to an \<open>otlptracegrpc.RetryConfig\<close>:
  a closure that updates the configuration it is pointed at, here a function from the
  old to the new value.
\<close>

type_synonym RetryOption = "RetryConfig \<Rightarrow> RetryConfig"

definition RetryEnabled :: "bool \<Rightarrow> RetryOption" where
  "RetryEnabled enabled = (\<lambda>rc. rc\<lparr>Enabled := enabled\<rparr>)"

definition RetryInitialInterval :: "Duration \<Rightarrow> RetryOption" where
  "RetryInitialInterval interval = (\<lambda>rc. rc\<lparr>InitialInterval := interval\<rparr>)"

definition RetryMaxInterval :: "Duration \<Rightarrow> RetryOption" where
  "RetryMaxInterval interval = (\<lambda>rc. rc\<lparr>MaxInterval := interval\<rparr>)"

definition RetryMaxElapsedTime :: "Duration \<Rightarrow> RetryOption" where
  "RetryMaxElapsedTime interval = (\<lambda>rc. rc\<lparr>MaxElapsedTime := interval\<rparr>)"

text \<open>
  \<open>GrpcConn\<close> and \<open>TlsCredentials\<close> are pointers (\<open>None\<close> is \<open>nil\<close>).
  \<open>Headers\<close> is a Go map, kept as the list of its entries: the code only asks
  whether it is empty and hands it on.
\<close>

record OtlpGrpcSpanExporterConfig =
  Compressor :: string
  DialOptions :: "DialOption list"
  Endpoint :: string
  GrpcConn :: "ClientConn option"
  Headers :: "(string \<times> string) list"
  Insecure :: bool
  ReconnectionPeriod :: Duration
  RetryOptions :: "RetryOption list"
  ServiceConfig :: string
  TlsCredentials :: "TransportCredentials option"
  Timeout :: Duration

text \<open>The Go composite literal \<open>otlptracegrpc.RetryConfig{}\<close>: every field zero.\<close>

definition RetryConfig_zero :: RetryConfig where
  "RetryConfig_zero =
     \<lparr>Enabled = False, InitialInterval = 0, MaxInterval = 0, MaxElapsedTime = 0\<rparr>"

definition OtlpGrpcSpanExporterConfig_getOptions ::
  "OtlpGrpcSpanExporterConfig \<Rightarrow> otlptracegrpc_Option list" where
  "OtlpGrpcSpanExporterConfig_getOptions c =
     (let options = [];
          options = (if Compressor c \<noteq> [] then options @ [WithCompressor (Compressor c)]
                     else options);
          options = (if length (DialOptions c) > 0
                     then options @ [WithDialOption (DialOptions c)] else options);
          options = (if Endpoint c \<noteq> [] then options @ [WithEndpoint (Endpoint c)]
                     else options);
          options = (case GrpcConn c of
                       Some conn \<Rightarrow> options @ [WithGRPCConn conn]
                     | None \<Rightarrow> options);
          options = (if length (Headers c) > 0 then options @ [WithHeaders (Headers c)]
                     else options);
          options = (if Insecure c then options @ [WithInsecure] else options);
          options = (if ReconnectionPeriod c \<noteq> 0
                     then options @ [WithReconnectionPeriod (ReconnectionPeriod c)]
                     else options);
          options = (if length (RetryOptions c) > 0
                     then (let retryConfig = RetryConfig_zero;
                               retryConfig = fold (\<lambda>option rc. option rc)
                                               (RetryOptions c) retryConfig
                           in options @ [WithRetry retryConfig])
                     else options);
          options = (if ServiceConfig c \<noteq> []
                     then options @ [WithServiceConfig (ServiceConfig c)] else options);
          options = (case TlsCredentials c of
                       Some creds \<Rightarrow> options @ [WithTLSCredentials creds]
                     | None \<Rightarrow> options);
          options = (if Timeout c \<noteq> 0 then options @ [WithTimeout (Timeout c)]
                     else options)
      in options)"

definition OtlpGrpcSpanExporterConfig_newSpanExporter ::
  "sdk \<Rightarrow> OtlpGrpcSpanExporterConfig \<Rightarrow> Context \<Rightarrow> error + SpanExporter" where
  "OtlpGrpcSpanExporterConfig_newSpanExporter k c ctx =
     (let opts = OtlpGrpcSpanExporterConfig_getOptions c
      in call (otlptracegrpc_New_err k ctx opts) (otlptracegrpc_New ctx opts))"

subsection \<open>The interface \<open>SpanExporterConfig\<close>\<close>

text \<open>
  Its one method is unexported, so the two configurations of the package are its only
  implementations. An interface value can also be \<open>nil\<close>, which is \<open>None\<close> where
  a \<open>SpanExporterConfig\<close> is passed.
\<close>

datatype SpanExporterConfig =
    Console ConsoleSpanExporterConfig
  | OtlpGrpc OtlpGrpcSpanExporterConfig

fun newSpanExporter :: "sdk \<Rightarrow> SpanExporterConfig \<Rightarrow> Context \<Rightarrow> error + SpanExporter" where
  "newSpanExporter k (Console c) ctx = ConsoleSpanExporterConfig_newSpanExporter k c ctx"
| "newSpanExporter k (OtlpGrpc c) ctx = OtlpGrpcSpanExporterConfig_newSpanExporter k c ctx"

section \<open>Resource configuration\<close>

text \<open>The field \<open>detectors\<close> is unexported: only code of the package can set it.\<close>

record ResourceConfig =
  Attributes :: "KeyValue list"
  Container :: bool
  ContainerID :: bool
  detectors :: "Detector list"
  FromEnv :: bool
  Host :: bool
  OS :: bool
  OSDescription :: bool
  OSType :: bool
  Process :: bool
  ProcessCommandArgs :: bool
  ProcessExecutableName :: bool
  ProcessExecutablePath :: bool
  ProcessOwner :: bool
  ProcessPID :: bool
  ProcessRuntimeDescription :: bool
  ProcessRuntimeName :: bool
  ProcessRuntimeVersion :: bool

definition ResourceConfig_getOptions :: "ResourceConfig \<Rightarrow> resource_Option list" where
  "ResourceConfig_getOptions r =
     (let options = [];
          options = options @ [WithSchemaURL semconv_SchemaURL];
          options = options @ [WithTelemetrySDK];
          options = (if length (Attributes r) > 0
                     then options @ [WithAttributes (Attributes r)] else options);
          options = (if Container r then options @ [WithContainer] else options);
          options = (if ContainerID r then options @ [WithContainerID] else options);
          options = (if length (detectors r) > 0
                     then options @ [WithDetectors (detectors r)] else options);
          options = (if FromEnv r then options @ [WithFromEnv] else options);
          options = (if Host r then options @ [WithHost] else options);
          options = (if OS r then options @ [WithOS] else options);
          options = (if OSDescription r then options @ [WithOSDescription] else options);
          options = (if OSType r then options @ [WithOSType] else options);
          options = (if Process r then options @ [WithProcess] else options);
          options = (if ProcessCommandArgs r then options @ [WithProcessCommandArgs]
                     else options);
          options = (if ProcessExecutableName r
                     then options @ [WithProcessExecutableName] else options);
          options = (if ProcessExecutablePath r
                     then options @ [WithProcessExecutablePath] else options);
          options = (if ProcessOwner r then options @ [WithProcessOwner] else options);
          options = (if ProcessPID r then options @ [WithProcessPID] else options);
          options = (if ProcessRuntimeDescription r
                     then options @ [WithProcessRuntimeDescription] else options);
          options = (if ProcessRuntimeName r then options @ [WithProcessRuntimeName]
                     else options);
          options = (if ProcessRuntimeVersion r
                     then options @ [WithProcessRuntimeVersion] else options)
      in options)"

definition ResourceConfig_newResource ::
  "sdk \<Rightarrow> ResourceConfig \<Rightarrow> Context \<Rightarrow> error + Resource" where
  "ResourceConfig_newResource k r ctx =
     (let opts = ResourceConfig_getOptions r
      in case call (resource_New_err k ctx opts) (resource_New ctx opts) of
           Inl err \<Rightarrow> Inl err
         | Inr newResource \<Rightarrow>
             call (resource_Merge_err k resource_Default newResource)
                  (resource_Merge resource_Default newResource))"

section \<open>Lifecycle\<close>

text \<open>
  The process-wide state the package reads and writes: its two package-level variables
  \<open>tp\<close> (a pointer, \<open>None\<close> is \<open>nil\<close>) and \<open>serviceName\<close>, the tracer provider
  and the propagator registered with the \<open>otel\<close> package (\<open>None\<close>: none was set),
  the files \<open>os.Create\<close> has created, and the calls made on tracer providers, in order.
\<close>

datatype provider_call = ForceFlush Context TracerProvider | Shutdown Context TracerProvider

record globals =
  tp :: "TracerProvider option"
  serviceName :: string
  otel_TracerProvider :: "TracerProvider option"
  otel_TextMapPropagator :: "TextMapPropagator option"
  created :: "string list"
  calls :: "provider_call list"

text \<open>The state of a process that has called nothing yet: Go's zero values.\<close>

definition start :: globals where
  "start = \<lparr>tp = None, serviceName = [], otel_TracerProvider = None,
            otel_TextMapPropagator = None, created = [], calls = []\<rparr>"

text \<open>
  The end of both initializers, from \<open>tp = sdkTrace.NewTracerProvider(...)\<close> to
  \<open>return nil\<close>.
\<close>

definition register :: "SpanExporter \<Rightarrow> Resource \<Rightarrow> globals \<Rightarrow> error option go \<times> globals" where
  "register exp resource s =
     (let s = s\<lparr>tp := Some (NewTracerProvider exp resource)\<rparr>;
          s = s\<lparr>otel_TracerProvider := tp s\<rparr>;
          s = s\<lparr>otel_TextMapPropagator :=
                  Some (NewCompositeTextMapPropagator [TraceContext, Baggage])\<rparr>
      in (Return None, s))"

subsection \<open>The initializer and teardown of \<open>config.go\<close>\<close>

definition OtelInit ::
  "sdk \<Rightarrow> Context \<Rightarrow> ResourceConfig \<Rightarrow> SpanExporterConfig option \<Rightarrow> globals
     \<Rightarrow> error option go \<times> globals" where
  "OtelInit k startCtx resourceConf exporterConfig s =
     (case ResourceConfig_newResource k resourceConf startCtx of
        Inl err \<Rightarrow> (Return (Some err), s)
      | Inr resource \<Rightarrow>
          (case exporterConfig of
             None \<Rightarrow> (Panic, s)
           | Some ec \<Rightarrow>
               (case newSpanExporter k ec startCtx of
                  Inl err \<Rightarrow> (Return (Some err), s)
                | Inr exp \<Rightarrow> register exp resource s)))"

text \<open>
  \<open>tp.ForceFlush\<close> and \<open>tp.Shutdown\<close> are methods of the SDK's provider that read
  the fields of their receiver, so a call through a nil \<open>tp\<close> is a nil dereference.
\<close>

definition OtelEnd :: "sdk \<Rightarrow> Context \<Rightarrow> globals \<Rightarrow> error option go \<times> globals" where
  "OtelEnd k endCtx s =
     (case tp s of
        None \<Rightarrow> (Panic, s)
      | Some p \<Rightarrow>
          (let s = s\<lparr>calls := calls s @ [ForceFlush endCtx p]\<rparr>
           in case ForceFlush_err k endCtx p of
                Some err \<Rightarrow> (Return (Some err), s)
              | None \<Rightarrow>
                  (let s = s\<lparr>calls := calls s @ [Shutdown endCtx p]\<rparr>
                   in (Return (Shutdown_err k endCtx p), s))))"

subsection \<open>The legacy initializer and teardown, and the helpers of \<open>exporters.go\<close>\<close>

definition fileExporter :: string where
  "fileExporter = ''file''"

definition consoleExporter :: string where
  "consoleExporter = ''console''"

definition otlpExporter :: string where
  "otlpExporter = ''otlp''"

definition newConsoleExporter :: "sdk \<Rightarrow> io_Writer \<Rightarrow> error + SpanExporter" where
  "newConsoleExporter k w =
     (let opts = [WithWriter w, WithPrettyPrint]
      in call (stdouttrace_New_err k opts) (stdouttrace_New opts))"

text \<open>\<open>time.Second * 5\<close> in nanoseconds.\<close>

definition newOtlpExporter :: "sdk \<Rightarrow> error + SpanExporter" where
  "newOtlpExporter k =
     (let ctx = context_Background;
          ctx = context_WithTimeout ctx (1000000000 * 5);
          client = [WithEndpoint (viper_GetString k ''OTEL_EXPORTER_OTLP_ENDPOINT''),
                    WithInsecure]
      in call (otlptrace_New_err k ctx client) (otlptrace_New ctx client))"

definition newResource :: "sdk \<Rightarrow> error + Resource" where
  "newResource k =
     (let r = resource_NewWithAttributes semconv_SchemaURL
                [(semconv_ServiceNameKey, ''go-cli''), (semconv_ServiceVersionKey, ''demo'')]
      in call (resource_Merge_err k resource_Default r) (resource_Merge resource_Default r))"

text \<open>
  \<open>fmt.Errorf("Exporter type '%s' is not implemented", otelExporter)\<close>;
  \<open>CHR 0x27\<close> is the single quote.
\<close>

definition not_implemented :: "string \<Rightarrow> error" where
  "not_implemented otelExporter =
     Error (''Exporter type '' @ [CHR 0x27] @ otelExporter @ [CHR 0x27] @ '' is not implemented'')"

text \<open>\<open>os.Create(name)\<close>: the error, or the file, which then exists.\<close>

definition os_Create :: "sdk \<Rightarrow> string \<Rightarrow> globals \<Rightarrow> (error + io_Writer) \<times> globals" where
  "os_Create k name s =
     (case os_Create_err k name of
        Some e \<Rightarrow> (Inl e, s)
      | None \<Rightarrow> (Inr (os_File name), s\<lparr>created := created s @ [name]\<rparr>))"

text \<open>
  The lines after the \<open>switch\<close>: \<open>if err != nil { return err }\<close>, then the
  registration.
\<close>

definition after_switch ::
  "error + SpanExporter \<Rightarrow> Resource \<Rightarrow> globals \<Rightarrow> error option go \<times> globals" where
  "after_switch r resource s =
     (case r of
        Inl err \<Rightarrow> (Return (Some err), s)
      | Inr exp \<Rightarrow> register exp resource s)"

definition legacy_OtelInit ::
  "sdk \<Rightarrow> string \<Rightarrow> string \<Rightarrow> globals \<Rightarrow> error option go \<times> globals" where
  "legacy_OtelInit k name otelExporter s =
     (let s = s\<lparr>serviceName := name\<rparr>
      in case newResource k of
           Inl err \<Rightarrow> (Return (Some err), s)
         | Inr resource \<Rightarrow>
             if otelExporter = consoleExporter then
               after_switch (newConsoleExporter k os_Stdout) resource s
             else if otelExporter = fileExporter then
               (case os_Create k (viper_GetString k ''OTEL_FILE_SPAN_EXPORTER_NAME'') s of
                  (Inl fErr, s) \<Rightarrow> (Return (Some fErr), s)
                | (Inr f, s) \<Rightarrow> after_switch (newConsoleExporter k f) resource s)
             else if otelExporter = otlpExporter then
               after_switch (newOtlpExporter k) resource s
             else (Return (Some (not_implemented otelExporter)), s))"

definition legacy_OtelEnd :: "sdk \<Rightarrow> globals \<Rightarrow> error option go \<times> globals" where
  "legacy_OtelEnd k s =
     (case tp s of
        None \<Rightarrow> (Panic, s)
      | Some p \<Rightarrow>
          (let s = s\<lparr>calls := calls s @ [ForceFlush context_Background p]\<rparr>
           in case ForceFlush_err k context_Background p of
                Some err \<Rightarrow> (Return (Some err), s)
              | None \<Rightarrow>
                  (let s = s\<lparr>calls := calls s @ [Shutdown context_Background p]\<rparr>
                   in (Return (Shutdown_err k context_Background p), s))))"

section \<open>Sequences of calls\<close>

text \<open>
  A process calls the initializer and the teardown in some order, each call with the
  outcomes the SDK gives it then. \<open>run\<close> is the state after a sequence of calls (a
  panic being recovered, so that later calls still run), and \<open>no_init_succeeded\<close>
  says that no initializer call of the sequence returned \<open>nil\<close>. The two versions of
  the package are two programs, each with its own sequences.
\<close>

datatype api_call =
    Init sdk Context ResourceConfig "SpanExporterConfig option"
  | End sdk Context

fun exec :: "api_call \<Rightarrow> globals \<Rightarrow> error option go \<times> globals" where
  "exec (Init k ctx rc ec) s = OtelInit k ctx rc ec s"
| "exec (End k ctx) s = OtelEnd k ctx s"

fun run :: "api_call list \<Rightarrow> globals \<Rightarrow> globals" where
  "run [] s = s"
| "run (c # cs) s = run cs (snd (exec c s))"

fun init_succeeded :: "api_call \<Rightarrow> globals \<Rightarrow> bool" where
  "init_succeeded (Init k ctx rc ec) s = (fst (OtelInit k ctx rc ec s) = Return None)"
| "init_succeeded (End k ctx) s = False"

fun no_init_succeeded :: "api_call list \<Rightarrow> globals \<Rightarrow> bool" where
  "no_init_succeeded [] s = True"
| "no_init_succeeded (c # cs) s =
     (\<not> init_succeeded c s \<and> no_init_succeeded cs (snd (exec c s)))"

datatype legacy_call = LegacyInit sdk string string | LegacyEnd sdk

fun legacy_exec :: "legacy_call \<Rightarrow> globals \<Rightarrow> error option go \<times> globals" where
  "legacy_exec (LegacyInit k name otelExporter) s = legacy_OtelInit k name otelExporter s"
| "legacy_exec (LegacyEnd k) s = legacy_OtelEnd k s"

fun legacy_run :: "legacy_call list \<Rightarrow> globals \<Rightarrow> globals" where
  "legacy_run [] s = s"
| "legacy_run (c # cs) s = legacy_run cs (snd (legacy_exec c s))"

fun legacy_init_succeeded :: "legacy_call \<Rightarrow> globals \<Rightarrow> bool" where
  "legacy_init_succeeded (LegacyInit k name otelExporter) s =
     (fst (legacy_OtelInit k name otelExporter s) = Return None)"
| "legacy_init_succeeded (LegacyEnd k) s = False"

fun legacy_no_init_succeeded :: "legacy_call list \<Rightarrow> globals \<Rightarrow> bool" where
  "legacy_no_init_succeeded [] s = True"
| "legacy_no_init_succeeded (c # cs) s =
     (\<not> legacy_init_succeeded c s \<and> legacy_no_init_succeeded cs (snd (legacy_exec c s)))"

section \<open>Conditions and sample values\<close>


text \<open>The Go zero values \<open>ResourceConfig{}\<close> and \<open>OtlpGrpcSpanExporterConfig{}\<close>.\<close>

definition ResourceConfig_zero :: ResourceConfig where
  "ResourceConfig_zero =
     \<lparr>Attributes = [], Container = False, ContainerID = False, detectors = [],
      FromEnv = False, Host = False, OS = False, OSDescription = False, OSType = False,
      Process = False, ProcessCommandArgs = False, ProcessExecutableName = False,
      ProcessExecutablePath = False, ProcessOwner = False, ProcessPID = False,
      ProcessRuntimeDescription = False, ProcessRuntimeName = False,
      ProcessRuntimeVersion = False\<rparr>"

definition OtlpGrpcSpanExporterConfig_zero :: OtlpGrpcSpanExporterConfig where
  "OtlpGrpcSpanExporterConfig_zero =
     \<lparr>Compressor = [], DialOptions = [], Endpoint = [], GrpcConn = None, Headers = [],
      Insecure = False, ReconnectionPeriod = 0, RetryOptions = [], ServiceConfig = [],
      TlsCredentials = None, Timeout = 0\<rparr>"

text \<open>
  Sample outcomes of the delegated calls: every call succeeds; the resource merge fails
  (as the SDK's does when the schema URLs of the two resources differ); the exporter
  constructors fail; the flush fails.
\<close>

definition sdk_ok :: sdk where
  "sdk_ok =
     \<lparr>resource_New_err = (\<lambda>ctx opts. None), resource_Merge_err = (\<lambda>a b. None),
      stdouttrace_New_err = (\<lambda>opts. None), otlptracegrpc_New_err = (\<lambda>ctx opts. None),
      otlptrace_New_err = (\<lambda>ctx opts. None), os_Create_err = (\<lambda>name. None),
      viper_GetString = (\<lambda>key. if key = ''OTEL_FILE_SPAN_EXPORTER_NAME''
                                then ''spans.json'' else ''localhost:4317''),
      ForceFlush_err = (\<lambda>ctx p. None), Shutdown_err = (\<lambda>ctx p. None)\<rparr>"

definition sdk_merge_conflict :: sdk where
  "sdk_merge_conflict =
     sdk_ok\<lparr>resource_Merge_err :=
              (\<lambda>a b. Some (Error ''cannot merge resource due to conflicting Schema URL''))\<rparr>"

definition sdk_exporters_fail :: sdk where
  "sdk_exporters_fail =
     sdk_ok\<lparr>stdouttrace_New_err := (\<lambda>opts. Some (Error ''no exporter'')),
            otlptracegrpc_New_err := (\<lambda>ctx opts. Some (Error ''no exporter'')),
            otlptrace_New_err := (\<lambda>ctx opts. Some (Error ''no exporter''))\<rparr>"

definition sdk_flush_fails :: sdk where
  "sdk_flush_fails =
     sdk_ok\<lparr>ForceFlush_err := (\<lambda>ctx p. Some (Error ''context deadline exceeded''))\<rparr>"

text \<open>The provider a successful legacy initialization with the kind "console" builds.\<close>

definition some_provider :: TracerProvider where
  "some_provider =
     NewTracerProvider (stdouttrace_New [WithWriter os_Stdout, WithPrettyPrint])
       (resource_Merge resource_Default
          (resource_NewWithAttributes semconv_SchemaURL
             [(semconv_ServiceNameKey, ''go-cli''), (semconv_ServiceVersionKey, ''demo'')]))"

section \<open>Facts about the option lists\<close>

lemma append_if: "(if c then xs @ [a] else xs) = xs @ (if c then [a] else [])"
  by simp

lemma in_set_if: "x \<in> set (if c then [a] else []) \<longleftrightarrow> c \<and> x = a"
  by auto

lemma call_Inr: "call err v = Inr x \<Longrightarrow> x = v"
  by (auto simp: call_def split: option.splits)





lemma Console_getOptions_eq:
  "ConsoleSpanExporterConfig_getOptions c =
     (if PrettyPrint c then [WithPrettyPrint] else [])
     @ (if \<not> Timestamps c then [WithoutTimestamps] else [])
     @ [WithWriter (case Writer c of None \<Rightarrow> os_Stdout | Some w \<Rightarrow> w)]"
  unfolding ConsoleSpanExporterConfig_getOptions_def Let_def
  by (simp split: option.splits)

lemma newConsoleExporter_Inr:
  "newConsoleExporter k w = Inr e \<Longrightarrow> e = stdouttrace_New [WithWriter w, WithPrettyPrint]"
  by (auto simp: newConsoleExporter_def Let_def dest!: call_Inr)

text \<open>Each retry option sets its own field of the configuration and keeps the others.\<close>

lemma RetryOption_fields:
  "RetryEnabled b rc = rc\<lparr>Enabled := b\<rparr>"
  "RetryInitialInterval d rc = rc\<lparr>InitialInterval := d\<rparr>"
  "RetryMaxInterval d rc = rc\<lparr>MaxInterval := d\<rparr>"
  "RetryMaxElapsedTime d rc = rc\<lparr>MaxElapsedTime := d\<rparr>"
  by (simp_all add: RetryEnabled_def RetryInitialInterval_def RetryMaxInterval_def
        RetryMaxElapsedTime_def)

text \<open>
  The option list of an \<open>OtlpGrpcSpanExporterConfig\<close>, field by field. Every set field
  becomes an option of its own: the package hands \<open>WithGRPCConn\<close> to the SDK next to
  the endpoint, security, dial, reconnection and service-configuration options, and
  leaves the choice between them to the SDK's client.
\<close>

lemma OtlpGrpc_getOptions_eq:
  "OtlpGrpcSpanExporterConfig_getOptions c =
     (if Compressor c \<noteq> [] then [WithCompressor (Compressor c)] else [])
     @ (if DialOptions c \<noteq> [] then [WithDialOption (DialOptions c)] else [])
     @ (if Endpoint c \<noteq> [] then [WithEndpoint (Endpoint c)] else [])
     @ (case GrpcConn c of Some conn \<Rightarrow> [WithGRPCConn conn] | None \<Rightarrow> [])
     @ (if Headers c \<noteq> [] then [WithHeaders (Headers c)] else [])
     @ (if Insecure c then [WithInsecure] else [])
     @ (if ReconnectionPeriod c \<noteq> 0 then [WithReconnectionPeriod (ReconnectionPeriod c)]
        else [])
     @ (if RetryOptions c \<noteq> []
        then [WithRetry (fold (\<lambda>option rc. option rc) (RetryOptions c) RetryConfig_zero)]
        else [])
     @ (if ServiceConfig c \<noteq> [] then [WithServiceConfig (ServiceConfig c)] else [])
     @ (case TlsCredentials c of Some creds \<Rightarrow> [WithTLSCredentials creds] | None \<Rightarrow> [])
     @ (if Timeout c \<noteq> 0 then [WithTimeout (Timeout c)] else [])"
proof -
  have case_append: "(case x of Some v \<Rightarrow> xs @ [f v] | None \<Rightarrow> xs)
      = xs @ (case x of Some v \<Rightarrow> [f v] | None \<Rightarrow> [])"
    for x :: "'b option" and xs :: "'c list" and f
    by (cases x) simp_all
  show ?thesis
    unfolding OtlpGrpcSpanExporterConfig_getOptions_def Let_def append_if case_append
    by simp
qed

lemma OtlpGrpc_connection_options:
  "(WithGRPCConn conn \<in> set (OtlpGrpcSpanExporterConfig_getOptions c)
      \<longleftrightarrow> GrpcConn c = Some conn)
   \<and> (WithEndpoint e \<in> set (OtlpGrpcSpanExporterConfig_getOptions c)
      \<longleftrightarrow> Endpoint c \<noteq> [] \<and> e = Endpoint c)
   \<and> (WithInsecure \<in> set (OtlpGrpcSpanExporterConfig_getOptions c) \<longleftrightarrow> Insecure c)
   \<and> (WithDialOption ds \<in> set (OtlpGrpcSpanExporterConfig_getOptions c)
      \<longleftrightarrow> DialOptions c \<noteq> [] \<and> ds = DialOptions c)
   \<and> (WithReconnectionPeriod d \<in> set (OtlpGrpcSpanExporterConfig_getOptions c)
      \<longleftrightarrow> ReconnectionPeriod c \<noteq> 0 \<and> d = ReconnectionPeriod c)
   \<and> (WithServiceConfig sc \<in> set (OtlpGrpcSpanExporterConfig_getOptions c)
      \<longleftrightarrow> ServiceConfig c \<noteq> [] \<and> sc = ServiceConfig c)"
  unfolding OtlpGrpc_getOptions_eq set_append Un_iff in_set_if
  by (auto split: option.splits)

section \<open>Facts about the lifecycle\<close>

lemma register_eq:
  "register exp resource s =
     (Return None, s\<lparr>tp := Some (NewTracerProvider exp resource),
                     otel_TracerProvider := Some (NewTracerProvider exp resource),
                     otel_TextMapPropagator :=
                       Some (NewCompositeTextMapPropagator [TraceContext, Baggage])\<rparr>)"
  by (simp add: register_def)

lemma OtelInit_error_state:
  "OtelInit k ctx rc ec s = (Return (Some e), s') \<Longrightarrow> s' = s"
  unfolding OtelInit_def register_eq
  by (auto split: sum.splits option.splits)

lemma OtelInit_not_nil_state:
  "fst (OtelInit k ctx rc ec s) \<noteq> Return None \<Longrightarrow> snd (OtelInit k ctx rc ec s) = s"
  unfolding OtelInit_def register_eq
  by (auto split: sum.splits option.splits)

lemma after_switch_frame:
  "after_switch r resource s = (x, s') \<Longrightarrow> x \<noteq> Return None \<Longrightarrow> s' = s"
  unfolding after_switch_def register_eq by (auto split: sum.splits)

lemma after_switch_console:
  "after_switch (newConsoleExporter k w) resource t = (Return None, s') \<Longrightarrow>
   tp s' = Some (NewTracerProvider (stdouttrace_New [WithWriter w, WithPrettyPrint]) resource)"
  by (auto simp: after_switch_def register_eq split: sum.splits dest!: newConsoleExporter_Inr)

text \<open>The legacy initializer, one lemma for each arm of its \<open>switch\<close>.\<close>

lemma legacy_OtelInit_console:
  "newResource k = Inr resource \<Longrightarrow>
   legacy_OtelInit k name consoleExporter s =
     after_switch (newConsoleExporter k os_Stdout) resource (s\<lparr>serviceName := name\<rparr>)"
  by (simp add: legacy_OtelInit_def)

lemma legacy_OtelInit_file:
  "newResource k = Inr resource \<Longrightarrow>
   legacy_OtelInit k name fileExporter s =
     (case os_Create_err k (viper_GetString k ''OTEL_FILE_SPAN_EXPORTER_NAME'') of
        Some fErr \<Rightarrow> (Return (Some fErr), s\<lparr>serviceName := name\<rparr>)
      | None \<Rightarrow>
          after_switch
            (newConsoleExporter k (os_File (viper_GetString k ''OTEL_FILE_SPAN_EXPORTER_NAME'')))
            resource
            (s\<lparr>serviceName := name,
               created := created s @ [viper_GetString k ''OTEL_FILE_SPAN_EXPORTER_NAME'']\<rparr>))"
  by (simp add: legacy_OtelInit_def os_Create_def consoleExporter_def fileExporter_def
           split: option.splits)

lemma legacy_OtelInit_otlp:
  "newResource k = Inr resource \<Longrightarrow>
   legacy_OtelInit k name otlpExporter s =
     after_switch (newOtlpExporter k) resource (s\<lparr>serviceName := name\<rparr>)"
  by (simp add: legacy_OtelInit_def consoleExporter_def fileExporter_def otlpExporter_def)

lemma legacy_OtelInit_success_resource:
  "legacy_OtelInit k name otelExporter s = (Return None, s') \<Longrightarrow>
   \<exists>resource. newResource k = Inr resource"
  by (cases "newResource k") (simp_all add: legacy_OtelInit_def)

lemma legacy_OtelInit_not_nil_frame:
  assumes "legacy_OtelInit k name otelExporter s = (x, s')" and "x \<noteq> Return None"
  shows "tp s' = tp s \<and> otel_TracerProvider s' = otel_TracerProvider s
         \<and> otel_TextMapPropagator s' = otel_TextMapPropagator s \<and> calls s' = calls s
         \<and> serviceName s' = name"
  using assms
  unfolding legacy_OtelInit_def Let_def os_Create_def
  by (auto split: sum.splits option.splits if_splits prod.splits dest!: after_switch_frame)

lemma OtelEnd_tp: "tp (snd (OtelEnd k ctx s)) = tp s"
  unfolding OtelEnd_def by (simp add: Let_def split: option.splits)

lemma legacy_OtelEnd_tp: "tp (snd (legacy_OtelEnd k s)) = tp s"
  unfolding legacy_OtelEnd_def by (simp add: Let_def split: option.splits)

lemma exec_tp: "\<not> init_succeeded c s \<Longrightarrow> tp (snd (exec c s)) = tp s"
  by (cases c) (simp_all add: OtelInit_not_nil_state OtelEnd_tp)

lemma legacy_exec_tp: "\<not> legacy_init_succeeded c s \<Longrightarrow> tp (snd (legacy_exec c s)) = tp s"
proof (cases c)
  case (LegacyInit k name otelExporter)
  assume "\<not> legacy_init_succeeded c s"
  with LegacyInit have "fst (legacy_OtelInit k name otelExporter s) \<noteq> Return None" by simp
  with legacy_OtelInit_not_nil_frame [of k name otelExporter s]
  show ?thesis using LegacyInit by (cases "legacy_OtelInit k name otelExporter s") simp
next
  case (LegacyEnd k)
  then show ?thesis by (simp add: legacy_OtelEnd_tp)
qed

text \<open>
  The pointer \<open>tp\<close> is written by a successful initializer only: induction on the
  sequence of calls, the state generalised.
\<close>

lemma run_tp: "no_init_succeeded cs s \<Longrightarrow> tp (run cs s) = tp s"
  by (induction cs arbitrary: s) (simp_all add: exec_tp)

lemma legacy_run_tp: "legacy_no_init_succeeded cs s \<Longrightarrow> tp (legacy_run cs s) = tp s"
  by (induction cs arbitrary: s) (simp_all add: legacy_exec_tp)

section \<open>Resource resolution (claim C1)\<close>



section \<open>Retry configuration (claim C2)\<close>

text \<open>
  Claim C2 says that the retry options are applied on top of the exporter's default
  backoff policy, so that a field no option sets keeps the default's value. The doc
  comment of \<open>RetryOptions\<close> says the same: the default policy retries 5 seconds after
  a retryable error, for no more than a minute in total, and "options in the list are
  applied to the default retry policy".

  The code starts from the zero value \<open>otlptracegrpc.RetryConfig{}\<close> instead. With the
  one option \<open>RetryMaxInterval(10 * time.Second)\<close> the configuration handed to
  \<open>WithRetry\<close> has retrying disabled and the other two intervals zero.
\<close>

theorem retry_options_on_zero_config:
  "OtlpGrpcSpanExporterConfig_getOptions
     (OtlpGrpcSpanExporterConfig_zero\<lparr>RetryOptions := [RetryMaxInterval 10000000000]\<rparr>)
   = [WithRetry \<lparr>Enabled = False, InitialInterval = 0, MaxInterval = 10000000000,
                 MaxElapsedTime = 0\<rparr>]"
  by (simp add: OtlpGrpcSpanExporterConfig_getOptions_def OtlpGrpcSpanExporterConfig_zero_def
        RetryConfig_zero_def RetryMaxInterval_def)

section \<open>Shutdown sequencing (claim C4)\<close>

text \<open>
  Claim C4: in a call of the teardown routine, if the flush returns an error, that error
  is returned at once and the shutdown of the provider is not attempted; otherwise the
  result of the shutdown is returned. A flush that returns is a flush on a provider, so
  \<open>tp\<close> points to one. The calls made on the provider are the flush alone in the
  first case, the flush and then the shutdown in the second; nothing else of the state
  changes. Both versions of \<open>OtelEnd\<close> behave so, the legacy one with the background
  context.
\<close>

theorem OtelEnd_sequencing:
  assumes "tp s = Some p"
  shows "(ForceFlush_err k ctx p = Some err \<longrightarrow>
            OtelEnd k ctx s = (Return (Some err), s\<lparr>calls := calls s @ [ForceFlush ctx p]\<rparr>))
       \<and> (ForceFlush_err k ctx p = None \<longrightarrow>
            OtelEnd k ctx s =
              (Return (Shutdown_err k ctx p),
               s\<lparr>calls := calls s @ [ForceFlush ctx p, Shutdown ctx p]\<rparr>))
       \<and> (ForceFlush_err k context_Background p = Some err \<longrightarrow>
            legacy_OtelEnd k s =
              (Return (Some err), s\<lparr>calls := calls s @ [ForceFlush context_Background p]\<rparr>))
       \<and> (ForceFlush_err k context_Background p = None \<longrightarrow>
            legacy_OtelEnd k s =
              (Return (Shutdown_err k context_Background p),
               s\<lparr>calls := calls s @ [ForceFlush context_Background p,
                                      Shutdown context_Background p]\<rparr>))"
  using assms by (simp add: OtelEnd_def legacy_OtelEnd_def)

text \<open>An instance: a failing flush, and a flush and shutdown that succeed.\<close>

theorem OtelEnd_sequencing_witness:
  "tp (start\<lparr>tp := Some some_provider\<rparr>) = Some some_provider
   \<and> ForceFlush_err sdk_flush_fails (Ctx 1) some_provider
       = Some (Error ''context deadline exceeded'')
   \<and> OtelEnd sdk_flush_fails (Ctx 1) (start\<lparr>tp := Some some_provider\<rparr>)
       = (Return (Some (Error ''context deadline exceeded'')),
          start\<lparr>tp := Some some_provider, calls := [ForceFlush (Ctx 1) some_provider]\<rparr>)
   \<and> legacy_OtelEnd sdk_flush_fails (start\<lparr>tp := Some some_provider\<rparr>)
       = (Return (Some (Error ''context deadline exceeded'')),
          start\<lparr>tp := Some some_provider,
                 calls := [ForceFlush context_Background some_provider]\<rparr>)
   \<and> ForceFlush_err sdk_ok (Ctx 1) some_provider = None
   \<and> OtelEnd sdk_ok (Ctx 1) (start\<lparr>tp := Some some_provider\<rparr>)
       = (Return None,
          start\<lparr>tp := Some some_provider,
                 calls := [ForceFlush (Ctx 1) some_provider, Shutdown (Ctx 1) some_provider]\<rparr>)
   \<and> legacy_OtelEnd sdk_ok (start\<lparr>tp := Some some_provider\<rparr>)
       = (Return None,
          start\<lparr>tp := Some some_provider,
                 calls := [ForceFlush context_Background some_provider,
                           Shutdown context_Background some_provider]\<rparr>)"
  using OtelEnd_sequencing [of "start\<lparr>tp := Some some_provider\<rparr>" some_provider
      sdk_flush_fails "Ctx 1" "Error ''context deadline exceeded''"]
    OtelEnd_sequencing [of "start\<lparr>tp := Some some_provider\<rparr>" some_provider sdk_ok "Ctx 1"]
  by (simp add: start_def sdk_ok_def sdk_flush_fails_def)

section \<open>Initialization failure (claim C5)\<close>

text \<open>
  Claim C5 says that when resource resolution or exporter construction fails, either
  initializer returns that error and leaves all process-wide state as it was, no
  package-level variable modified.

  The legacy initializer assigns its \<open>name\<close> argument to the package-level variable
  \<open>serviceName\<close> in its first statement, before anything can fail: here the resource
  merge fails, the error is returned, and \<open>serviceName\<close> has changed.
\<close>

theorem legacy_serviceName_counterexample:
  "newResource sdk_merge_conflict
     = Inl (Error ''cannot merge resource due to conflicting Schema URL'')
   \<and> legacy_OtelInit sdk_merge_conflict ''svc'' ''console'' start
     = (Return (Some (Error ''cannot merge resource due to conflicting Schema URL'')),
        start\<lparr>serviceName := ''svc''\<rparr>)
   \<and> serviceName start = []
   \<and> serviceName (snd (legacy_OtelInit sdk_merge_conflict ''svc'' ''console'' start)) = ''svc''"
  by (simp add: legacy_OtelInit_def newResource_def call_def sdk_merge_conflict_def sdk_ok_def
        start_def)

text \<open>
  Claim C5, amended: when resource resolution or exporter construction fails, either
  initializer returns that error; no tracer provider is constructed or registered and no
  propagator is installed. The initializer of \<open>config.go\<close> then leaves the whole state
  exactly as it was. The legacy initializer leaves \<open>tp\<close>, the registered provider,
  the propagator and the providers' call history as they were, and has set
  \<open>serviceName\<close> to its \<open>name\<close> argument; on its file path the failure can be that
  of \<open>os.Create\<close>, or that of the exporter after the file has been created.
\<close>

theorem init_failure_state:
  "(ResourceConfig_newResource k rc ctx = Inl e \<longrightarrow>
      OtelInit k ctx rc ec s = (Return (Some e), s))
   \<and> (ResourceConfig_newResource k rc ctx = Inr res \<and> newSpanExporter k c ctx = Inl e \<longrightarrow>
      OtelInit k ctx rc (Some c) s = (Return (Some e), s))
   \<and> (OtelInit k ctx rc ec s = (Return (Some e), s') \<longrightarrow> s' = s)
   \<and> (newResource k = Inl e \<longrightarrow>
      legacy_OtelInit k name otelExporter s = (Return (Some e), s\<lparr>serviceName := name\<rparr>))
   \<and> (newResource k = Inr res \<and> newConsoleExporter k os_Stdout = Inl e \<longrightarrow>
      legacy_OtelInit k name consoleExporter s = (Return (Some e), s\<lparr>serviceName := name\<rparr>))
   \<and> (newResource k = Inr res
        \<and> os_Create_err k (viper_GetString k ''OTEL_FILE_SPAN_EXPORTER_NAME'') = Some e \<longrightarrow>
      legacy_OtelInit k name fileExporter s = (Return (Some e), s\<lparr>serviceName := name\<rparr>))
   \<and> (newResource k = Inr res
        \<and> os_Create_err k (viper_GetString k ''OTEL_FILE_SPAN_EXPORTER_NAME'') = None
        \<and> newConsoleExporter k (os_File (viper_GetString k ''OTEL_FILE_SPAN_EXPORTER_NAME''))
            = Inl e \<longrightarrow>
      legacy_OtelInit k name fileExporter s =
        (Return (Some e),
         s\<lparr>serviceName := name,
           created := created s @ [viper_GetString k ''OTEL_FILE_SPAN_EXPORTER_NAME'']\<rparr>))
   \<and> (newResource k = Inr res \<and> newOtlpExporter k = Inl e \<longrightarrow>
      legacy_OtelInit k name otlpExporter s = (Return (Some e), s\<lparr>serviceName := name\<rparr>))
   \<and> (legacy_OtelInit k name otelExporter s = (Return (Some e), s') \<longrightarrow>
      tp s' = tp s \<and> otel_TracerProvider s' = otel_TracerProvider s
      \<and> otel_TextMapPropagator s' = otel_TextMapPropagator s \<and> calls s' = calls s
      \<and> serviceName s' = name)"
proof -
  have modern_resource: "ResourceConfig_newResource k rc ctx = Inl e \<longrightarrow>
      OtelInit k ctx rc ec s = (Return (Some e), s)"
    by (simp add: OtelInit_def)
  have modern_exporter:
    "ResourceConfig_newResource k rc ctx = Inr res \<and> newSpanExporter k c ctx = Inl e \<longrightarrow>
      OtelInit k ctx rc (Some c) s = (Return (Some e), s)"
    by (simp add: OtelInit_def)
  have modern_frame: "OtelInit k ctx rc ec s = (Return (Some e), s') \<longrightarrow> s' = s"
    using OtelInit_error_state by blast
  have legacy_resource: "newResource k = Inl e \<longrightarrow>
      legacy_OtelInit k name otelExporter s = (Return (Some e), s\<lparr>serviceName := name\<rparr>)"
    by (simp add: legacy_OtelInit_def)
  have legacy_console: "newResource k = Inr res \<and> newConsoleExporter k os_Stdout = Inl e \<longrightarrow>
      legacy_OtelInit k name consoleExporter s = (Return (Some e), s\<lparr>serviceName := name\<rparr>)"
    by (simp add: legacy_OtelInit_console after_switch_def)
  have legacy_create: "newResource k = Inr res
        \<and> os_Create_err k (viper_GetString k ''OTEL_FILE_SPAN_EXPORTER_NAME'') = Some e \<longrightarrow>
      legacy_OtelInit k name fileExporter s = (Return (Some e), s\<lparr>serviceName := name\<rparr>)"
    by (simp add: legacy_OtelInit_file)
  have legacy_file: "newResource k = Inr res
        \<and> os_Create_err k (viper_GetString k ''OTEL_FILE_SPAN_EXPORTER_NAME'') = None
        \<and> newConsoleExporter k (os_File (viper_GetString k ''OTEL_FILE_SPAN_EXPORTER_NAME''))
            = Inl e \<longrightarrow>
      legacy_OtelInit k name fileExporter s =
        (Return (Some e),
         s\<lparr>serviceName := name,
           created := created s @ [viper_GetString k ''OTEL_FILE_SPAN_EXPORTER_NAME'']\<rparr>)"
    by (simp add: legacy_OtelInit_file after_switch_def)
  have legacy_otlp: "newResource k = Inr res \<and> newOtlpExporter k = Inl e \<longrightarrow>
      legacy_OtelInit k name otlpExporter s = (Return (Some e), s\<lparr>serviceName := name\<rparr>)"
    by (simp add: legacy_OtelInit_otlp after_switch_def)
  have legacy_frame: "legacy_OtelInit k name otelExporter s = (Return (Some e), s') \<longrightarrow>
      tp s' = tp s \<and> otel_TracerProvider s' = otel_TracerProvider s
      \<and> otel_TextMapPropagator s' = otel_TextMapPropagator s \<and> calls s' = calls s
      \<and> serviceName s' = name"
    using legacy_OtelInit_not_nil_frame [of k name otelExporter s "Return (Some e)" s'] by simp
  from modern_resource modern_exporter modern_frame legacy_resource legacy_console
    legacy_create legacy_file legacy_otlp legacy_frame
  show ?thesis by blast
qed

text \<open>
  Instances: a failing resource merge in both initializers, and failing exporter
  constructors in both.
\<close>

theorem init_failure_state_witness:
  "ResourceConfig_newResource sdk_merge_conflict ResourceConfig_zero (Ctx 0)
     = Inl (Error ''cannot merge resource due to conflicting Schema URL'')
   \<and> OtelInit sdk_merge_conflict (Ctx 0) ResourceConfig_zero None start
     = (Return (Some (Error ''cannot merge resource due to conflicting Schema URL'')), start)
   \<and> newResource sdk_merge_conflict
     = Inl (Error ''cannot merge resource due to conflicting Schema URL'')
   \<and> legacy_OtelInit sdk_merge_conflict ''svc'' ''otlp'' start
     = (Return (Some (Error ''cannot merge resource due to conflicting Schema URL'')),
        start\<lparr>serviceName := ''svc''\<rparr>)
   \<and> newSpanExporter sdk_exporters_fail
        (Console \<lparr>PrettyPrint = True, Timestamps = True, Writer = None\<rparr>) (Ctx 0)
     = Inl (Error ''no exporter'')
   \<and> OtelInit sdk_exporters_fail (Ctx 0) ResourceConfig_zero
        (Some (Console \<lparr>PrettyPrint = True, Timestamps = True, Writer = None\<rparr>)) start
     = (Return (Some (Error ''no exporter'')), start)
   \<and> newOtlpExporter sdk_exporters_fail = Inl (Error ''no exporter'')
   \<and> legacy_OtelInit sdk_exporters_fail ''svc'' otlpExporter start
     = (Return (Some (Error ''no exporter'')), start\<lparr>serviceName := ''svc''\<rparr>)
   \<and> legacy_OtelInit sdk_exporters_fail ''svc'' fileExporter start
     = (Return (Some (Error ''no exporter'')),
        start\<lparr>serviceName := ''svc'', created := [''spans.json'']\<rparr>)"
proof -
  have r0: "ResourceConfig_newResource sdk_merge_conflict ResourceConfig_zero (Ctx 0)
     = Inl (Error ''cannot merge resource due to conflicting Schema URL'')"
    by (simp add: ResourceConfig_newResource_def call_def sdk_merge_conflict_def sdk_ok_def)
  have r1: "newResource sdk_merge_conflict
     = Inl (Error ''cannot merge resource due to conflicting Schema URL'')"
    by (simp add: newResource_def call_def sdk_merge_conflict_def sdk_ok_def)
  have r2: "ResourceConfig_newResource sdk_exporters_fail ResourceConfig_zero (Ctx 0)
     = Inr (resource_Merge resource_Default
              (resource_New (Ctx 0) (ResourceConfig_getOptions ResourceConfig_zero)))"
    by (simp add: ResourceConfig_newResource_def call_def sdk_exporters_fail_def sdk_ok_def)
  have r4: "newResource sdk_exporters_fail
     = Inr (resource_Merge resource_Default
              (resource_NewWithAttributes semconv_SchemaURL
                 [(semconv_ServiceNameKey, ''go-cli''), (semconv_ServiceVersionKey, ''demo'')]))"
    by (simp add: newResource_def call_def sdk_exporters_fail_def sdk_ok_def)
  have x0: "newSpanExporter sdk_exporters_fail
        (Console \<lparr>PrettyPrint = True, Timestamps = True, Writer = None\<rparr>) (Ctx 0)
     = Inl (Error ''no exporter'')"
    by (simp add: ConsoleSpanExporterConfig_newSpanExporter_def call_def sdk_exporters_fail_def
          sdk_ok_def)
  have x1: "newOtlpExporter sdk_exporters_fail = Inl (Error ''no exporter'')"
    by (simp add: newOtlpExporter_def call_def sdk_exporters_fail_def sdk_ok_def)
  have x2: "os_Create_err sdk_exporters_fail
              (viper_GetString sdk_exporters_fail ''OTEL_FILE_SPAN_EXPORTER_NAME'') = None"
    by (simp add: sdk_exporters_fail_def sdk_ok_def)
  have x3: "viper_GetString sdk_exporters_fail ''OTEL_FILE_SPAN_EXPORTER_NAME'' = ''spans.json''"
    by (simp add: sdk_exporters_fail_def sdk_ok_def)
  have x4: "newConsoleExporter sdk_exporters_fail
              (os_File (viper_GetString sdk_exporters_fail ''OTEL_FILE_SPAN_EXPORTER_NAME''))
              = Inl (Error ''no exporter'')"
    by (simp add: newConsoleExporter_def call_def sdk_exporters_fail_def sdk_ok_def)
  have c0: "created start = []"
    by (simp add: start_def)
  note t = init_failure_state
  have m0: "OtelInit sdk_merge_conflict (Ctx 0) ResourceConfig_zero None start
     = (Return (Some (Error ''cannot merge resource due to conflicting Schema URL'')), start)"
    by (rule t [THEN conjunct1, THEN mp, OF r0])
  have m1: "legacy_OtelInit sdk_merge_conflict ''svc'' ''otlp'' start
     = (Return (Some (Error ''cannot merge resource due to conflicting Schema URL'')),
        start\<lparr>serviceName := ''svc''\<rparr>)"
    by (rule t [THEN conjunct2, THEN conjunct2, THEN conjunct2, THEN conjunct1, THEN mp, OF r1])
  have m2: "OtelInit sdk_exporters_fail (Ctx 0) ResourceConfig_zero
        (Some (Console \<lparr>PrettyPrint = True, Timestamps = True, Writer = None\<rparr>)) start
     = (Return (Some (Error ''no exporter'')), start)"
    by (rule t [THEN conjunct2, THEN conjunct1, THEN mp, OF conjI [OF r2 x0]])
  have m3: "legacy_OtelInit sdk_exporters_fail ''svc'' otlpExporter start
     = (Return (Some (Error ''no exporter'')), start\<lparr>serviceName := ''svc''\<rparr>)"
    by (rule t [THEN conjunct2, THEN conjunct2, THEN conjunct2, THEN conjunct2,
          THEN conjunct2, THEN conjunct2, THEN conjunct2, THEN conjunct1, THEN mp,
          OF conjI [OF r4 x1]])
  have m4: "legacy_OtelInit sdk_exporters_fail ''svc'' fileExporter start
     = (Return (Some (Error ''no exporter'')),
        start\<lparr>serviceName := ''svc'', created := [''spans.json'']\<rparr>)"
    using t [THEN conjunct2, THEN conjunct2, THEN conjunct2, THEN conjunct2,
          THEN conjunct2, THEN conjunct2, THEN conjunct1, THEN mp,
          OF conjI [OF r4 conjI [OF x2 x4]], of "''svc''" start]
    by (simp add: x3 c0)
  from r0 m0 r1 m1 x0 m2 x1 m3 m4 show ?thesis
    by (intro conjI)
qed

section \<open>Unknown exporter kind (claim C6)\<close>

text \<open>
  Claim C6 says that for every string other than "file", "console" and "otlp" the
  legacy initializer returns the formatted "not implemented" error naming the string,
  does not panic and registers no tracer provider.

  The initializer resolves the resource before it looks at the exporter kind, and
  returns the resource's error if there is one: with a failing resource merge the
  error returned for the kind "jaeger" is the merge's, not the "not implemented" one.
\<close>

theorem unknown_exporter_kind_counterexample:
  "''jaeger'' \<notin> {fileExporter, consoleExporter, otlpExporter}
   \<and> legacy_OtelInit sdk_merge_conflict ''svc'' ''jaeger'' start
       = (Return (Some (Error ''cannot merge resource due to conflicting Schema URL'')),
          start\<lparr>serviceName := ''svc''\<rparr>)
   \<and> Error ''cannot merge resource due to conflicting Schema URL''
       \<noteq> Error (''Exporter type '' @ [CHR 0x27] @ ''jaeger'' @ [CHR 0x27]
                  @ '' is not implemented'')"
  by (simp add: legacy_OtelInit_def newResource_def call_def sdk_merge_conflict_def sdk_ok_def
        fileExporter_def consoleExporter_def otlpExporter_def)

text \<open>
  Claim C6, amended: for every string other than "file", "console" and "otlp", the
  legacy initializer returns an error and never panics, and the tracer provider pointer
  and the registered provider are as before the call. When the resource is resolved, the
  error is \<open>Exporter type '<string>' is not implemented\<close>; when resolving the resource
  fails, it is the resource's error.
\<close>

theorem unknown_exporter_kind:
  assumes "otelExporter \<notin> {fileExporter, consoleExporter, otlpExporter}"
  shows "(newResource k = Inr res \<longrightarrow>
            legacy_OtelInit k name otelExporter s =
              (Return (Some (Error (''Exporter type '' @ [CHR 0x27] @ otelExporter @ [CHR 0x27]
                                     @ '' is not implemented''))),
               s\<lparr>serviceName := name\<rparr>))
       \<and> (newResource k = Inl e \<longrightarrow>
            legacy_OtelInit k name otelExporter s = (Return (Some e), s\<lparr>serviceName := name\<rparr>))
       \<and> fst (legacy_OtelInit k name otelExporter s) \<noteq> Panic
       \<and> fst (legacy_OtelInit k name otelExporter s) \<noteq> Return None
       \<and> tp (snd (legacy_OtelInit k name otelExporter s)) = tp s
       \<and> otel_TracerProvider (snd (legacy_OtelInit k name otelExporter s))
           = otel_TracerProvider s"
  using assms
  by (cases "newResource k") (simp_all add: legacy_OtelInit_def not_implemented_def)

text \<open>
  An instance: the kind "jaeger", with a resource that resolves and with one that does
  not.
\<close>

theorem unknown_exporter_kind_witness:
  "''jaeger'' \<notin> {fileExporter, consoleExporter, otlpExporter}
   \<and> newResource sdk_ok
       = Inr (resource_Merge resource_Default
                (resource_NewWithAttributes semconv_SchemaURL
                   [(semconv_ServiceNameKey, ''go-cli''), (semconv_ServiceVersionKey, ''demo'')]))
   \<and> legacy_OtelInit sdk_ok ''svc'' ''jaeger'' start
       = (Return (Some (Error (''Exporter type '' @ [CHR 0x27] @ ''jaeger'' @ [CHR 0x27]
                                @ '' is not implemented''))),
          start\<lparr>serviceName := ''svc''\<rparr>)
   \<and> newResource sdk_merge_conflict
       = Inl (Error ''cannot merge resource due to conflicting Schema URL'')
   \<and> legacy_OtelInit sdk_merge_conflict ''tool'' ''jaeger'' start
       = (Return (Some (Error ''cannot merge resource due to conflicting Schema URL'')),
          start\<lparr>serviceName := ''tool''\<rparr>)"
proof -
  have r': "newResource sdk_merge_conflict
       = Inl (Error ''cannot merge resource due to conflicting Schema URL'')"
    by (simp add: newResource_def call_def sdk_merge_conflict_def sdk_ok_def)
  have kind: "''jaeger'' \<notin> {fileExporter, consoleExporter, otlpExporter}"
    by (simp add: fileExporter_def consoleExporter_def otlpExporter_def)
  have r: "newResource sdk_ok
       = Inr (resource_Merge resource_Default
                (resource_NewWithAttributes semconv_SchemaURL
                   [(semconv_ServiceNameKey, ''go-cli''), (semconv_ServiceVersionKey, ''demo'')]))"
    by (simp add: newResource_def call_def sdk_ok_def)
  have "legacy_OtelInit sdk_ok ''svc'' ''jaeger'' start
       = (Return (Some (Error (''Exporter type '' @ [CHR 0x27] @ ''jaeger'' @ [CHR 0x27]
                                @ '' is not implemented''))),
          start\<lparr>serviceName := ''svc''\<rparr>)"
    by (rule unknown_exporter_kind [OF kind, THEN conjunct1, THEN mp, OF r])
  moreover have "legacy_OtelInit sdk_merge_conflict ''tool'' ''jaeger'' start
       = (Return (Some (Error ''cannot merge resource due to conflicting Schema URL'')),
          start\<lparr>serviceName := ''tool''\<rparr>)"
    by (rule unknown_exporter_kind [OF kind, THEN conjunct2, THEN conjunct1, THEN mp, OF r'])
  ultimately show ?thesis using kind r r' by (intro conjI)
qed

section \<open>Console exporter configuration (claim C7)\<close>

text \<open>
  Claim C7: a \<open>ConsoleSpanExporterConfig\<close> whose \<open>Writer\<close> is nil writes to the
  standard output, any other to the writer supplied; the pretty-print and the timestamp
  booleans each control their own option and nothing else. In the option list,
  \<open>WithPrettyPrint\<close> stands exactly when \<open>PrettyPrint\<close> is true,
  \<open>WithoutTimestamps\<close> exactly when \<open>Timestamps\<close> is false, and the one
  \<open>WithWriter\<close> option names \<open>os.Stdout\<close> for a nil writer and the supplied writer
  otherwise; no option occurs twice; changing the other two fields changes the presence
  of none of them; and the exporter is the one \<open>stdouttrace.New\<close> builds from that
  list.
\<close>

theorem Console_options:
  "(WithPrettyPrint \<in> set (ConsoleSpanExporterConfig_getOptions c) \<longleftrightarrow> PrettyPrint c)
   \<and> (WithoutTimestamps \<in> set (ConsoleSpanExporterConfig_getOptions c) \<longleftrightarrow> \<not> Timestamps c)
   \<and> (WithWriter w \<in> set (ConsoleSpanExporterConfig_getOptions c)
        \<longleftrightarrow> w = (case Writer c of None \<Rightarrow> os_Stdout | Some w' \<Rightarrow> w'))
   \<and> distinct (ConsoleSpanExporterConfig_getOptions c)
   \<and> (WithPrettyPrint
         \<in> set (ConsoleSpanExporterConfig_getOptions (c\<lparr>Timestamps := t, Writer := v\<rparr>))
        \<longleftrightarrow> WithPrettyPrint \<in> set (ConsoleSpanExporterConfig_getOptions c))
   \<and> (WithoutTimestamps
         \<in> set (ConsoleSpanExporterConfig_getOptions (c\<lparr>PrettyPrint := b, Writer := v\<rparr>))
        \<longleftrightarrow> WithoutTimestamps \<in> set (ConsoleSpanExporterConfig_getOptions c))
   \<and> (WithWriter w
         \<in> set (ConsoleSpanExporterConfig_getOptions (c\<lparr>PrettyPrint := b, Timestamps := t\<rparr>))
        \<longleftrightarrow> WithWriter w \<in> set (ConsoleSpanExporterConfig_getOptions c))
   \<and> (newSpanExporter k (Console c) ctx = Inr e \<longrightarrow>
        e = stdouttrace_New (ConsoleSpanExporterConfig_getOptions c))"
proof -
  have exporter: "newSpanExporter k (Console c) ctx = Inr e \<longrightarrow>
        e = stdouttrace_New (ConsoleSpanExporterConfig_getOptions c)"
    by (auto simp: ConsoleSpanExporterConfig_newSpanExporter_def Let_def dest!: call_Inr)
  show ?thesis
    using exporter
    unfolding Console_getOptions_eq set_append Un_iff in_set_if
    by (auto split: option.splits)
qed

text \<open>
  Instances: the nil writer with neither toggle changing the defaults, and a supplied
  writer with both.
\<close>

theorem Console_options_witness:
  "newSpanExporter sdk_ok (Console \<lparr>PrettyPrint = False, Timestamps = True, Writer = None\<rparr>)
     (Ctx 0)
     = Inr (stdouttrace_New [WithWriter os_Stdout])
   \<and> stdouttrace_New [WithWriter os_Stdout]
     = stdouttrace_New (ConsoleSpanExporterConfig_getOptions
                          \<lparr>PrettyPrint = False, Timestamps = True, Writer = None\<rparr>)
   \<and> newSpanExporter sdk_ok
        (Console \<lparr>PrettyPrint = True, Timestamps = False, Writer = Some (user_Writer 7)\<rparr>)
        (Ctx 0)
     = Inr (stdouttrace_New [WithPrettyPrint, WithoutTimestamps, WithWriter (user_Writer 7)])
   \<and> stdouttrace_New [WithPrettyPrint, WithoutTimestamps, WithWriter (user_Writer 7)]
     = stdouttrace_New (ConsoleSpanExporterConfig_getOptions
          \<lparr>PrettyPrint = True, Timestamps = False, Writer = Some (user_Writer 7)\<rparr>)"
proof -
  note t = Console_options [THEN conjunct2, THEN conjunct2, THEN conjunct2, THEN conjunct2,
      THEN conjunct2, THEN conjunct2, THEN conjunct2, THEN mp]
  have a: "newSpanExporter sdk_ok
      (Console \<lparr>PrettyPrint = False, Timestamps = True, Writer = None\<rparr>) (Ctx 0)
     = Inr (stdouttrace_New [WithWriter os_Stdout])"
    by (simp add: ConsoleSpanExporterConfig_newSpanExporter_def
          ConsoleSpanExporterConfig_getOptions_def call_def sdk_ok_def)
  have b: "newSpanExporter sdk_ok
        (Console \<lparr>PrettyPrint = True, Timestamps = False, Writer = Some (user_Writer 7)\<rparr>)
        (Ctx 0)
     = Inr (stdouttrace_New [WithPrettyPrint, WithoutTimestamps, WithWriter (user_Writer 7)])"
    by (simp add: ConsoleSpanExporterConfig_newSpanExporter_def
          ConsoleSpanExporterConfig_getOptions_def call_def sdk_ok_def)
  from a b t [OF a] t [OF b] show ?thesis by (intro conjI)
qed

section \<open>Teardown before initialization (claim C9)\<close>

text \<open>
  Claim C9: both versions of \<open>OtelEnd\<close> use the package-level provider pointer without
  a check. At any call of \<open>OtelEnd\<close> made before an initializer has succeeded the
  pointer is nil, so the call panics with a nil dereference instead of returning an
  error. Here the process starts from the zero state and makes any sequence of calls in
  which no initializer call returns \<open>nil\<close> (failed initializations and earlier
  teardowns); the pointer is then still nil and the next \<open>OtelEnd\<close> panics, leaving
  the state as it is.
\<close>

theorem OtelEnd_before_init_panics:
  "(no_init_succeeded cs start \<longrightarrow>
      tp (run cs start) = None \<and> OtelEnd k ctx (run cs start) = (Panic, run cs start))
   \<and> (legacy_no_init_succeeded lcs start \<longrightarrow>
      tp (legacy_run lcs start) = None
      \<and> legacy_OtelEnd k (legacy_run lcs start) = (Panic, legacy_run lcs start))"
proof -
  have "tp start = None" by (simp add: start_def)
  then show ?thesis
    using run_tp [of cs start] legacy_run_tp [of lcs start]
    by (simp add: OtelEnd_def legacy_OtelEnd_def)
qed

text \<open>
  An instance: a teardown and a failed initialization, then the teardown; and in the
  legacy version an initialization with an unknown exporter kind and a teardown, then
  the teardown.
\<close>

theorem OtelEnd_before_init_panics_witness:
  "no_init_succeeded
     [End sdk_ok (Ctx 0), Init sdk_merge_conflict (Ctx 0) ResourceConfig_zero None] start
   \<and> OtelEnd sdk_ok (Ctx 1)
       (run [End sdk_ok (Ctx 0), Init sdk_merge_conflict (Ctx 0) ResourceConfig_zero None] start)
      = (Panic, start)
   \<and> legacy_no_init_succeeded
       [LegacyInit sdk_ok ''svc'' ''jaeger'', LegacyEnd sdk_ok] start
   \<and> legacy_OtelEnd sdk_ok
       (legacy_run [LegacyInit sdk_ok ''svc'' ''jaeger'', LegacyEnd sdk_ok] start)
      = (Panic, start\<lparr>serviceName := ''svc''\<rparr>)"
proof -
  have a: "OtelEnd sdk_ok (Ctx 0) start = (Panic, start)"
    by (simp add: OtelEnd_def start_def)
  have b: "OtelInit sdk_merge_conflict (Ctx 0) ResourceConfig_zero None start
     = (Return (Some (Error ''cannot merge resource due to conflicting Schema URL'')), start)"
    by (simp add: OtelInit_def ResourceConfig_newResource_def call_def sdk_merge_conflict_def
          sdk_ok_def)
  have c: "legacy_OtelInit sdk_ok ''svc'' ''jaeger'' start
       = (Return (Some (not_implemented ''jaeger'')), start\<lparr>serviceName := ''svc''\<rparr>)"
    by (simp add: legacy_OtelInit_def newResource_def call_def sdk_ok_def fileExporter_def
          consoleExporter_def otlpExporter_def)
  have d: "legacy_OtelEnd sdk_ok (start\<lparr>serviceName := ''svc''\<rparr>)
       = (Panic, start\<lparr>serviceName := ''svc''\<rparr>)"
    by (simp add: legacy_OtelEnd_def start_def)
  have n: "no_init_succeeded
     [End sdk_ok (Ctx 0), Init sdk_merge_conflict (Ctx 0) ResourceConfig_zero None] start"
    by (simp add: a b)
  have r: "run [End sdk_ok (Ctx 0), Init sdk_merge_conflict (Ctx 0) ResourceConfig_zero None]
             start = start"
    by (simp add: a b)
  have ln: "legacy_no_init_succeeded
       [LegacyInit sdk_ok ''svc'' ''jaeger'', LegacyEnd sdk_ok] start"
    by (simp add: c d)
  have lr: "legacy_run [LegacyInit sdk_ok ''svc'' ''jaeger'', LegacyEnd sdk_ok] start
              = start\<lparr>serviceName := ''svc''\<rparr>"
    by (simp add: c d)
  note t = OtelEnd_before_init_panics
  have m: "OtelEnd sdk_ok (Ctx 1)
       (run [End sdk_ok (Ctx 0), Init sdk_merge_conflict (Ctx 0) ResourceConfig_zero None] start)
      = (Panic, start)"
    using t [THEN conjunct1, THEN mp, OF n, THEN conjunct2, of sdk_ok "Ctx 1"]
    by (simp only: r)
  have lm: "legacy_OtelEnd sdk_ok
       (legacy_run [LegacyInit sdk_ok ''svc'' ''jaeger'', LegacyEnd sdk_ok] start)
      = (Panic, start\<lparr>serviceName := ''svc''\<rparr>)"
    using t [THEN conjunct2, THEN mp, OF ln, THEN conjunct2, of sdk_ok]
    by (simp only: lr)
  from n m ln lm show ?thesis by (intro conjI)
qed

section \<open>The legacy console and file exporters (claim C10)\<close>

text \<open>
  Claim C10: in the legacy path every exporter built for the kinds "console" and "file"
  has pretty-printing on and the timestamps at the SDK's default. The helper
  \<open>newConsoleExporter\<close> takes a writer only and passes \<open>WithWriter\<close> and
  \<open>WithPrettyPrint\<close>, never \<open>WithoutTimestamps\<close>; after a successful legacy
  initialization with one of the two kinds the provider's exporter is built from exactly
  those two options, the writer being the standard output or the file named by the
  configuration key. A \<open>ConsoleSpanExporterConfig\<close> can turn both off.
\<close>

theorem legacy_console_exporter:
  "(newConsoleExporter k w = Inr e \<longrightarrow> e = stdouttrace_New [WithWriter w, WithPrettyPrint])
   \<and> (otelExporter \<in> {consoleExporter, fileExporter}
        \<and> legacy_OtelInit k name otelExporter s = (Return None, s') \<longrightarrow>
       (\<exists>resource opts.
          tp s' = Some (NewTracerProvider (stdouttrace_New opts) resource)
          \<and> opts = [WithWriter (if otelExporter = consoleExporter then os_Stdout
                                  else os_File (viper_GetString k ''OTEL_FILE_SPAN_EXPORTER_NAME'')),
                     WithPrettyPrint]
          \<and> WithPrettyPrint \<in> set opts \<and> WithoutTimestamps \<notin> set opts))
   \<and> ConsoleSpanExporterConfig_getOptions
        \<lparr>PrettyPrint = False, Timestamps = False, Writer = Some w\<rparr>
       = [WithoutTimestamps, WithWriter w]"
proof -
  have helper: "newConsoleExporter k w = Inr e \<longrightarrow>
      e = stdouttrace_New [WithWriter w, WithPrettyPrint]"
    using newConsoleExporter_Inr by blast
  have provider: "\<exists>resource. tp s' = Some (NewTracerProvider (stdouttrace_New
           [WithWriter (if otelExporter = consoleExporter then os_Stdout
                        else os_File (viper_GetString k ''OTEL_FILE_SPAN_EXPORTER_NAME'')),
            WithPrettyPrint]) resource)"
    if kind: "otelExporter \<in> {consoleExporter, fileExporter}"
      and ok: "legacy_OtelInit k name otelExporter s = (Return None, s')"
  proof -
    from ok obtain resource where r: "newResource k = Inr resource"
      using legacy_OtelInit_success_resource by blast
    show ?thesis
    proof (cases "otelExporter = consoleExporter")
      case True
      with ok r show ?thesis
        by (auto simp: legacy_OtelInit_console dest!: after_switch_console)
    next
      case False
      with kind have f: "otelExporter = fileExporter" by simp
      from False f have ne: "fileExporter \<noteq> consoleExporter" by simp
      from ok r show ?thesis unfolding f
        by (auto simp: legacy_OtelInit_file ne split: option.splits dest!: after_switch_console)
    qed
  qed
  have config: "ConsoleSpanExporterConfig_getOptions
        \<lparr>PrettyPrint = False, Timestamps = False, Writer = Some w\<rparr>
       = [WithoutTimestamps, WithWriter w]"
    by (simp add: ConsoleSpanExporterConfig_getOptions_def)
  from helper provider config show ?thesis by auto
qed

text \<open>An instance: a successful legacy initialization with the kind "file".\<close>

theorem legacy_console_exporter_witness:
  "''file'' \<in> {consoleExporter, fileExporter}
   \<and> legacy_OtelInit sdk_ok ''svc'' ''file'' start
      = (Return None,
         start\<lparr>tp := Some (NewTracerProvider
                   (stdouttrace_New [WithWriter (os_File ''spans.json''), WithPrettyPrint])
                   (resource_Merge resource_Default
                      (resource_NewWithAttributes semconv_SchemaURL
                         [(semconv_ServiceNameKey, ''go-cli''),
                          (semconv_ServiceVersionKey, ''demo'')]))),
                serviceName := ''svc'',
                otel_TracerProvider := Some (NewTracerProvider
                   (stdouttrace_New [WithWriter (os_File ''spans.json''), WithPrettyPrint])
                   (resource_Merge resource_Default
                      (resource_NewWithAttributes semconv_SchemaURL
                         [(semconv_ServiceNameKey, ''go-cli''),
                          (semconv_ServiceVersionKey, ''demo'')]))),
                otel_TextMapPropagator :=
                  Some (NewCompositeTextMapPropagator [TraceContext, Baggage]),
                created := [''spans.json'']\<rparr>)
   \<and> newConsoleExporter sdk_ok os_Stdout
      = Inr (stdouttrace_New [WithWriter os_Stdout, WithPrettyPrint])"
  using legacy_console_exporter [of sdk_ok os_Stdout _ "''file''" "''svc''" start]
  by (simp add: legacy_OtelInit_def newResource_def newConsoleExporter_def os_Create_def
        after_switch_def register_def call_def sdk_ok_def start_def consoleExporter_def
        fileExporter_def Let_def)

end
